theory Spec2Isabelle
  imports Complex_Main "HOL-Library.Word"
begin

section \<open>The arithmetic of \<^verbatim>\<open>double\<close>\<close>

text \<open>
  A \<^verbatim>\<open>double\<close> is either a finite number, one of the two infinities, or NaN.
  The finite numbers are modelled by the reals and every operation is exact on them:
  rounding, overflow to an infinity, underflow and the sign of zero are not modelled
  (a zero is the positive zero). What is modelled is where the infinities and NaN come
  from and how they travel: division by zero, \<^verbatim>\<open>0/0\<close>, \<^verbatim>\<open>inf - inf\<close>,
  \<^verbatim>\<open>0 * inf\<close>, the square root and the logarithm of a negative number, and the
  special cases of \<^verbatim>\<open>exp\<close>, \<^verbatim>\<open>erf\<close>, \<^verbatim>\<open>pow\<close> and \<^verbatim>\<open>std::max\<close>.
\<close>

datatype double = Fin real | PInf | NInf | NaN

instantiation double :: "{plus, minus, uminus, times, inverse}"
begin

fun plus_double :: "double \<Rightarrow> double \<Rightarrow> double" where
  "plus_double NaN y = NaN"
| "plus_double x NaN = NaN"
| "plus_double (Fin a) (Fin b) = Fin (a + b)"
| "plus_double (Fin a) PInf = PInf"
| "plus_double (Fin a) NInf = NInf"
| "plus_double PInf (Fin b) = PInf"
| "plus_double NInf (Fin b) = NInf"
| "plus_double PInf PInf = PInf"
| "plus_double NInf NInf = NInf"
| "plus_double PInf NInf = NaN"
| "plus_double NInf PInf = NaN"

fun uminus_double :: "double \<Rightarrow> double" where
  "uminus_double (Fin a) = Fin (- a)"
| "uminus_double PInf = NInf"
| "uminus_double NInf = PInf"
| "uminus_double NaN = NaN"

definition minus_double :: "double \<Rightarrow> double \<Rightarrow> double" where
  "minus_double x y = x + (- y)"

fun times_double :: "double \<Rightarrow> double \<Rightarrow> double" where
  "times_double NaN y = NaN"
| "times_double x NaN = NaN"
| "times_double (Fin a) (Fin b) = Fin (a * b)"
| "times_double (Fin a) PInf = (if a = 0 then NaN else if 0 < a then PInf else NInf)"
| "times_double (Fin a) NInf = (if a = 0 then NaN else if 0 < a then NInf else PInf)"
| "times_double PInf (Fin b) = (if b = 0 then NaN else if 0 < b then PInf else NInf)"
| "times_double NInf (Fin b) = (if b = 0 then NaN else if 0 < b then NInf else PInf)"
| "times_double PInf PInf = PInf"
| "times_double NInf NInf = PInf"
| "times_double PInf NInf = NInf"
| "times_double NInf PInf = NInf"

fun divide_double :: "double \<Rightarrow> double \<Rightarrow> double" where
  "divide_double NaN y = NaN"
| "divide_double x NaN = NaN"
| "divide_double (Fin a) (Fin b) =
     (if b = 0 then (if a = 0 then NaN else if 0 < a then PInf else NInf)
      else Fin (a / b))"
| "divide_double (Fin a) PInf = Fin 0"
| "divide_double (Fin a) NInf = Fin 0"
| "divide_double PInf (Fin b) = (if 0 \<le> b then PInf else NInf)"
| "divide_double NInf (Fin b) = (if 0 \<le> b then NInf else PInf)"
| "divide_double PInf PInf = NaN"
| "divide_double NInf NInf = NaN"
| "divide_double PInf NInf = NaN"
| "divide_double NInf PInf = NaN"

definition inverse_double :: "double \<Rightarrow> double" where
  "inverse_double x = divide (Fin 1) x"

instance ..

end

text \<open>The comparison \<^verbatim>\<open>a < b\<close>: false as soon as one side is NaN.\<close>

fun dless :: "double \<Rightarrow> double \<Rightarrow> bool" where
  "dless NaN y = False"
| "dless x NaN = False"
| "dless (Fin a) (Fin b) = (a < b)"
| "dless (Fin a) PInf = True"
| "dless (Fin a) NInf = False"
| "dless PInf y = False"
| "dless NInf (Fin b) = True"
| "dless NInf PInf = True"
| "dless NInf NInf = False"

text \<open>\<^verbatim>\<open>std::max(a, b)\<close> is \<^verbatim>\<open>(a < b) ? b : a\<close>: it returns \<^verbatim>\<open>a\<close> when \<^verbatim>\<open>a\<close> is NaN.\<close>

definition std_max :: "double \<Rightarrow> double \<Rightarrow> double" where
  "std_max a b = (if dless a b then b else a)"

fun dexp :: "double \<Rightarrow> double" where
  "dexp (Fin a) = Fin (exp a)"
| "dexp PInf = PInf"
| "dexp NInf = Fin 0"
| "dexp NaN = NaN"

fun dsqrt :: "double \<Rightarrow> double" where
  "dsqrt (Fin a) = (if 0 \<le> a then Fin (sqrt a) else NaN)"
| "dsqrt PInf = PInf"
| "dsqrt NInf = NaN"
| "dsqrt NaN = NaN"

fun dlog :: "double \<Rightarrow> double" where
  "dlog (Fin a) = (if 0 < a then Fin (ln a) else if a = 0 then NInf else NaN)"
| "dlog PInf = PInf"
| "dlog NInf = NaN"
| "dlog NaN = NaN"

text \<open>
  \<^verbatim>\<open>std::erf\<close> belongs to the C++ library, not to the repository: the error function on
  the finite numbers is a parameter \<open>erf\<close> of everything that calls it. Its values at
  the infinities are 1 and -1.
\<close>

fun derf :: "(real \<Rightarrow> real) \<Rightarrow> double \<Rightarrow> double" where
  "derf erf (Fin a) = Fin (erf a)"
| "derf erf PInf = Fin 1"
| "derf erf NInf = Fin (- 1)"
| "derf erf NaN = NaN"

text \<open>
  \<^verbatim>\<open>pow(x, n)\<close> with an \<^verbatim>\<open>int\<close> exponent: \<^verbatim>\<open>pow(x, 0)\<close> is 1 for every \<^verbatim>\<open>x\<close>, NaN
  and the infinities included.
\<close>

fun dpow :: "double \<Rightarrow> int \<Rightarrow> double" where
  "dpow x n =
     (if n = 0 then Fin 1
      else (case x of
              NaN \<Rightarrow> NaN
            | Fin a \<Rightarrow>
                (if 0 < n then Fin (a ^ nat n)
                 else if a = 0 then PInf
                 else Fin (1 / a ^ nat (- n)))
            | PInf \<Rightarrow> (if 0 < n then PInf else Fin 0)
            | NInf \<Rightarrow> (if 0 < n then (if odd n then NInf else PInf) else Fin 0)))"

section \<open>Payoffs and market parameters\<close>

text \<open>
  The classes \<^verbatim>\<open>EuropeanCall\<close> and \<^verbatim>\<open>EuropeanPut\<close> are the two implementations of
  \<^verbatim>\<open>Option\<close>; each holds its strike \<^verbatim>\<open>K\<close>. The strike and the fields of
  \<^verbatim>\<open>Parameters\<close> are finite numbers a caller supplies; the terminal price given to
  \<^verbatim>\<open>payoff\<close> is computed, so it is any \<^verbatim>\<open>double\<close>.
\<close>

datatype Option = EuropeanCall real | EuropeanPut real

fun payoff :: "Option \<Rightarrow> double \<Rightarrow> double" where
  "payoff (EuropeanCall K) ST = std_max (ST - Fin K) (Fin 0)"
| "payoff (EuropeanPut K) ST = std_max (Fin K - ST) (Fin 0)"

fun call :: "Option \<Rightarrow> bool" where
  "call (EuropeanCall K) = True"
| "call (EuropeanPut K) = False"

fun strike :: "Option \<Rightarrow> real" where
  "strike (EuropeanCall K) = K"
| "strike (EuropeanPut K) = K"

record Parameters =
  S :: real
  sigma :: real
  r :: real
  T :: real

section \<open>The Black-Scholes formulas\<close>

definition normal_cdf :: "(real \<Rightarrow> real) \<Rightarrow> double \<Rightarrow> double" where
  "normal_cdf erf x = Fin 0.5 * (Fin 1 + derf erf (x / dsqrt (Fin 2)))"

definition d1 :: "Option \<Rightarrow> Parameters \<Rightarrow> double" where
  "d1 option p =
     (dlog (Fin (S p) / Fin (strike option))
        + (Fin (r p) + Fin 0.5 * Fin (sigma p) * Fin (sigma p)) * Fin (T p))
     / (Fin (sigma p) * dsqrt (Fin (T p)))"

definition d2 :: "Option \<Rightarrow> Parameters \<Rightarrow> double" where
  "d2 option p = d1 option p - (Fin (sigma p) * dsqrt (Fin (T p)))"

definition bsprice :: "(real \<Rightarrow> real) \<Rightarrow> Option \<Rightarrow> Parameters \<Rightarrow> double" where
  "bsprice erf option p =
     (let k1 = d1 option p;
          k2 = d2 option p
      in if call option
         then Fin (S p) * normal_cdf erf k1
                - Fin (strike option) * dexp (- Fin (r p) * Fin (T p)) * normal_cdf erf k2
         else Fin (strike option) * dexp (- Fin (r p) * Fin (T p)) * normal_cdf erf (- k2)
                - Fin (S p) * normal_cdf erf (- k1))"

definition delta :: "(real \<Rightarrow> real) \<Rightarrow> Option \<Rightarrow> Parameters \<Rightarrow> double" where
  "delta erf option p =
     (let a1 = d1 option p;
          n1 = normal_cdf erf a1
      in if call option then n1 else n1 - Fin 1)"

section \<open>The Gaussian generator\<close>

text \<open>
  The class \<^verbatim>\<open>RNG\<close> holds a \<^verbatim>\<open>mt19937\<close> engine \<^verbatim>\<open>gen\<close> and a
  \<^verbatim>\<open>normal_distribution<double>\<close> \<^verbatim>\<open>rv\<close>. Both belong to the C++ library; their
  states are the type parameters \<open>'e\<close> and \<open>'d\<close>, and what they do is passed in:
  \<open>mt19937\<close> builds an engine from a 32-bit seed, \<open>normal_distribution\<close> is the
  distribution \<^verbatim>\<open>rv(0.0, 1.0)\<close> as constructed, and \<open>draw\<close> is its call operator, which
  returns a finite number and the new states of the distribution and of the engine.

  The only constructor takes no argument: it seeds the engine with the value that
  \<^verbatim>\<open>random_device{}()\<close> returns, which the platform chooses, not the caller.
\<close>

record ('e, 'd) RNG =
  gen :: 'e
  rv :: 'd

definition RNG_new :: "(32 word \<Rightarrow> 'e) \<Rightarrow> 'd \<Rightarrow> 32 word \<Rightarrow> ('e, 'd) RNG" where
  "RNG_new mt19937 normal_distribution random_device =
     \<lparr>gen = mt19937 random_device, rv = normal_distribution\<rparr>"

definition sample :: "('d \<Rightarrow> 'e \<Rightarrow> real \<times> 'd \<times> 'e) \<Rightarrow> ('e, 'd) RNG \<Rightarrow> real \<times> ('e, 'd) RNG" where
  "sample draw rng =
     (case draw (rv rng) (gen rng) of (z, d', e') \<Rightarrow> (z, \<lparr>gen = e', rv = d'\<rparr>))"

section \<open>The Monte Carlo pricer\<close>

text \<open>
  The loop \<^verbatim>\<open>for (int i = 0; i < n; i++)\<close> of \<^verbatim>\<open>mc_price\<close>, with the generator and the
  running total as its state.
\<close>

function mc_loop ::
  "('d \<Rightarrow> 'e \<Rightarrow> real \<times> 'd \<times> 'e) \<Rightarrow> Option \<Rightarrow> Parameters \<Rightarrow> int \<Rightarrow> int \<Rightarrow> ('e, 'd) RNG \<Rightarrow> double
     \<Rightarrow> double \<times> ('e, 'd) RNG" where
  "mc_loop draw option p n i rng total_payoff =
     (if i < n then
        (case sample draw rng of
           (z, rng') \<Rightarrow>
             (let ST = Fin (S p)
                         * dexp ((Fin (r p) - Fin 0.5 * Fin (sigma p) * Fin (sigma p)) * Fin (T p)
                                 + Fin (sigma p) * dsqrt (Fin (T p)) * Fin z)
              in mc_loop draw option p n (i + 1) rng' (total_payoff + payoff option ST)))
      else (total_payoff, rng))"
  by pat_completeness auto
termination
  by (relation "measure (\<lambda>(draw, option, p, n, i, rng, total_payoff). nat (n - i))") auto

definition mc_price ::
  "('d \<Rightarrow> 'e \<Rightarrow> real \<times> 'd \<times> 'e) \<Rightarrow> Option \<Rightarrow> Parameters \<Rightarrow> ('e, 'd) RNG \<Rightarrow> int
     \<Rightarrow> double \<times> ('e, 'd) RNG" where
  "mc_price draw option p rng n =
     (case mc_loop draw option p n 0 rng (Fin 0) of
        (total_payoff, rng') \<Rightarrow>
          (let price = dexp (- Fin (r p) * Fin (T p)) * (total_payoff / Fin (of_int n))
           in (price, rng')))"

section \<open>The binomial tree\<close>

text \<open>
  What can go wrong in \<^verbatim>\<open>BinomialTree::price\<close> besides the arithmetic: a negative size
  \<^verbatim>\<open>N + 1\<close> becomes, as a \<^verbatim>\<open>size_t\<close>, a size above \<^verbatim>\<open>max_size()\<close>, and the constructor
  of the vector throws \<^verbatim>\<open>std::length_error\<close>; and \<^verbatim>\<open>values[k]\<close> outside the vector is an
  access out of bounds. Running out of memory is not modelled.

  An \<^verbatim>\<open>int\<close> has 32 bits. The sum \<^verbatim>\<open>N + 1\<close> overflows when \<^verbatim>\<open>N\<close> is \<^verbatim>\<open>INT_MAX\<close>; the
  language leaves that undefined, the compiled program wraps around to \<^verbatim>\<open>INT_MIN\<close>, and
  \<open>int_plus\<close> does the same. The other sums and differences of the loops stay in range
  whenever the loops run (\<open>i + 1 \<le> N + 1 \<le> INT_MAX\<close>), and are those of \<open>int\<close>.
\<close>

datatype error = LengthError | OutOfBounds

definition INT_MAX :: int where
  "INT_MAX = 2147483647"

definition INT_MIN :: int where
  "INT_MIN = - 2147483648"

definition int_plus :: "int \<Rightarrow> int \<Rightarrow> int" where
  "int_plus a b = (a + b + 2147483648) mod 4294967296 - 2147483648"

definition vector_get :: "double list \<Rightarrow> int \<Rightarrow> error + double" where
  "vector_get values k =
     (if 0 \<le> k \<and> k < int (length values) then Inr (values ! nat k) else Inl OutOfBounds)"

definition vector_set :: "double list \<Rightarrow> int \<Rightarrow> double \<Rightarrow> error + double list" where
  "vector_set values k x =
     (if 0 \<le> k \<and> k < int (length values) then Inr (values[nat k := x]) else Inl OutOfBounds)"

text \<open>The loop \<^verbatim>\<open>for (int i = 0; i <= N; i++)\<close> that fills the terminal layer.\<close>

function terminal_loop ::
  "Option \<Rightarrow> Parameters \<Rightarrow> double \<Rightarrow> double \<Rightarrow> int \<Rightarrow> int \<Rightarrow> double list \<Rightarrow> error + double list" where
  "terminal_loop option p u d N i values =
     (if i \<le> N then
        (let ST = Fin (S p) * dpow u i * dpow d (N - i)
         in case vector_set values i (payoff option ST) of
              Inl e \<Rightarrow> Inl e
            | Inr values' \<Rightarrow> terminal_loop option p u d N (i + 1) values')
      else Inr values)"
  by pat_completeness auto
termination
  by (relation "measure (\<lambda>(option, p, u, d, N, i, values). nat (N + 1 - i))") auto

text \<open>The inner loop \<^verbatim>\<open>for (int j = 0; j <= i; j++)\<close> of the backward induction.\<close>

function inner_loop :: "double \<Rightarrow> double \<Rightarrow> int \<Rightarrow> int \<Rightarrow> double list \<Rightarrow> error + double list" where
  "inner_loop disc prob i j values =
     (if j \<le> i then
        (case vector_get values (j + 1) of
           Inl e \<Rightarrow> Inl e
         | Inr up \<Rightarrow>
             (case vector_get values j of
                Inl e \<Rightarrow> Inl e
              | Inr down \<Rightarrow>
                  (case vector_set values j (disc * (prob * up + (Fin 1 - prob) * down)) of
                     Inl e \<Rightarrow> Inl e
                   | Inr values' \<Rightarrow> inner_loop disc prob i (j + 1) values')))
      else Inr values)"
  by pat_completeness auto
termination
  by (relation "measure (\<lambda>(disc, prob, i, j, values). nat (i + 1 - j))") auto

text \<open>The outer loop \<^verbatim>\<open>for (int i = N - 1; i >= 0; i--)\<close>.\<close>

function outer_loop :: "double \<Rightarrow> double \<Rightarrow> int \<Rightarrow> double list \<Rightarrow> error + double list" where
  "outer_loop disc prob i values =
     (if 0 \<le> i then
        (case inner_loop disc prob i 0 values of
           Inl e \<Rightarrow> Inl e
         | Inr values' \<Rightarrow> outer_loop disc prob (i - 1) values')
      else Inr values)"
  by pat_completeness auto
termination
  by (relation "measure (\<lambda>(disc, prob, i, values). nat (i + 1))") auto

definition price :: "Option \<Rightarrow> Parameters \<Rightarrow> int \<Rightarrow> error + double" where
  "price option p N =
     (let dt = Fin (T p) / Fin (of_int N);
          u = dexp (Fin (sigma p) * dsqrt dt);
          d = Fin 1 / u;
          disc = dexp (- Fin (r p) * dt);
          prob = (dexp (Fin (r p) * dt) - d) / (u - d)
      in if int_plus N 1 < 0 then Inl LengthError
         else (case terminal_loop option p u d N 0 (replicate (nat (int_plus N 1)) (Fin 0)) of
                 Inl e \<Rightarrow> Inl e
               | Inr values \<Rightarrow>
                   (case outer_loop disc prob (N - 1) values of
                      Inl e \<Rightarrow> Inl e
                    | Inr values' \<Rightarrow> vector_get values' 0)))"

section \<open>What the specification says\<close>

text \<open>The formulas as the specification writes them, on the reals.\<close>

definition Phi :: "(real \<Rightarrow> real) \<Rightarrow> real \<Rightarrow> real" where
  "Phi erf x = 0.5 * (1 + erf (x / sqrt 2))"

definition bs_d1 :: "real \<Rightarrow> Parameters \<Rightarrow> real" where
  "bs_d1 K p = (ln (S p / K) + (r p + (sigma p)\<^sup>2 / 2) * T p) / (sigma p * sqrt (T p))"

definition bs_d2 :: "real \<Rightarrow> Parameters \<Rightarrow> real" where
  "bs_d2 K p = bs_d1 K p - sigma p * sqrt (T p)"

text \<open>
  The error function itself, as its power series
  \<open>erf x = 2/sqrt pi * (\<Sum>n. (-1)^n x^(2n+1) / (n! (2n+1)))\<close>: what \<^verbatim>\<open>std::erf\<close> computes
  on the finite numbers.
\<close>

definition erf_term :: "real \<Rightarrow> nat \<Rightarrow> real" where
  "erf_term x n = (- 1) ^ n * x ^ (2 * n + 1) / (fact n * of_nat (2 * n + 1))"

definition std_erf :: "real \<Rightarrow> real" where
  "std_erf x = 2 / sqrt pi * (\<Sum>n. erf_term x n)"

text \<open>The scenario of \<^verbatim>\<open>main\<close>: \<open>S = 100\<close>, \<open>sigma = 0.20\<close>, \<open>r = 0.05\<close>, \<open>T = 1\<close>.\<close>

definition main_p :: Parameters where
  "main_p = \<lparr>S = 100, sigma = 0.20, r = 0.05, T = 1\<rparr>"

text \<open>
  The Monte Carlo pricer in the words of the specification: the draws of \<open>k\<close> trials and
  the generator they leave, the terminal price of a trial, and the payoff of a finite
  terminal price. \<open>terminal_price_double\<close> is the terminal price in the arithmetic of
  \<^verbatim>\<open>double\<close>, \<open>terminal_price\<close> the same formula on the reals.
\<close>

fun draws :: "('d \<Rightarrow> 'e \<Rightarrow> real \<times> 'd \<times> 'e) \<Rightarrow> ('e, 'd) RNG \<Rightarrow> nat \<Rightarrow> real list \<times> ('e, 'd) RNG" where
  "draws draw rng 0 = ([], rng)"
| "draws draw rng (Suc k) =
     (case sample draw rng of
        (z, rng') \<Rightarrow> (case draws draw rng' k of (zs, rng'') \<Rightarrow> (z # zs, rng'')))"

definition terminal_price_double :: "Parameters \<Rightarrow> real \<Rightarrow> double" where
  "terminal_price_double p z =
     Fin (S p) * dexp (Fin ((r p - (sigma p)\<^sup>2 / 2) * T p) + Fin (sigma p) * dsqrt (Fin (T p)) * Fin z)"

definition terminal_price :: "Parameters \<Rightarrow> real \<Rightarrow> real" where
  "terminal_price p z = S p * exp ((r p - (sigma p)\<^sup>2 / 2) * T p + sigma p * sqrt (T p) * z)"

fun payoff_value :: "Option \<Rightarrow> real \<Rightarrow> real" where
  "payoff_value (EuropeanCall K) x = max (x - K) 0"
| "payoff_value (EuropeanPut K) x = max (K - x) 0"

text \<open>
  A \<^verbatim>\<open>double\<close> that is not negative: a finite number at least 0, the positive infinity, or
  NaN, which is not a number at all. These are the values \<open>x\<close> for which the test
  \<^verbatim>\<open>x < 0\<close> is false.
\<close>

fun not_negative :: "double \<Rightarrow> bool" where
  "not_negative (Fin a) = (0 \<le> a)"
| "not_negative PInf = True"
| "not_negative NInf = False"
| "not_negative NaN = True"

text \<open>
  The binomial tree in the words of the specification. One step of the backward induction
  turns a layer into the next one, which has one node fewer: node \<open>j\<close> of the new layer is
  \<open>disc (p V\<^sub>j\<^sub>+\<^sub>1 + (1 - p) V\<^sub>j)\<close> of the old one. \<open>node_double\<close>, \<open>step_double\<close> and
  \<open>terminal_double\<close> are a node, a step and a terminal value in the arithmetic of
  \<^verbatim>\<open>double\<close>.
\<close>

definition node_double :: "double \<Rightarrow> double \<Rightarrow> double \<Rightarrow> double \<Rightarrow> double" where
  "node_double disc prob up down = disc * (prob * up + (Fin 1 - prob) * down)"

definition step_double :: "double \<Rightarrow> double \<Rightarrow> double list \<Rightarrow> double list" where
  "step_double disc prob vs = map (\<lambda>j. node_double disc prob (vs ! (j + 1)) (vs ! j)) [0..<length vs - 1]"

definition terminal_double :: "Option \<Rightarrow> Parameters \<Rightarrow> double \<Rightarrow> double \<Rightarrow> int \<Rightarrow> nat \<Rightarrow> double" where
  "terminal_double option p u d N k = payoff option (Fin (S p) * dpow u (int k) * dpow d (N - int k))"

text \<open>Valid market parameters: \<open>S > 0\<close>, \<open>sigma > 0\<close>, \<open>T > 0\<close>.\<close>

definition valid :: "Parameters \<Rightarrow> bool" where
  "valid p = (0 < S p \<and> 0 < sigma p \<and> 0 < T p)"

text \<open>
  A small deterministic generator for the examples: the engine is a counter that starts at
  the seed, a draw returns the counter and adds one to it, and the state of the
  distribution counts the draws.
\<close>

definition example_mt19937 :: "32 word \<Rightarrow> nat" where
  "example_mt19937 seed = unat seed"

definition example_draw :: "nat \<Rightarrow> nat \<Rightarrow> real \<times> nat \<times> nat" where
  "example_draw d e = (real e, Suc d, Suc e)"

section \<open>Facts of the arithmetic\<close>

lemma minus_Fin [simp]: "Fin a - Fin b = Fin (a - b)"
  by (simp add: minus_double_def)

lemma plus_NaN_right [simp]: "x + NaN = (NaN :: double)"
  by (cases x) simp_all

lemma times_NaN_right [simp]: "x * NaN = (NaN :: double)"
  by (cases x) simp_all

lemma divide_NaN_right [simp]: "x / NaN = (NaN :: double)"
  by (cases x) simp_all

lemma minus_NaN [simp]: "NaN - y = NaN" "x - NaN = NaN"
  by (simp_all add: minus_double_def)

lemma summable_erf_term: "summable (erf_term x)"
proof (rule summable_comparison_test')
  show "summable (\<lambda>n. \<bar>x\<bar> * (inverse (fact n) * (x\<^sup>2) ^ n))"
    by (intro summable_mult summable_exp)
next
  fix n :: nat
  have "norm (erf_term x n) = \<bar>x\<bar> * (x\<^sup>2) ^ n / (fact n * of_nat (2 * n + 1))"
    by (simp add: erf_term_def abs_mult power_abs power_mult [symmetric] power_even_abs)
  also have "\<dots> \<le> \<bar>x\<bar> * (x\<^sup>2) ^ n / (fact n * 1)"
    by (intro divide_left_mono mult_left_mono mult_nonneg_nonneg) simp_all
  finally show "norm (erf_term x n) \<le> \<bar>x\<bar> * (inverse (fact n) * (x\<^sup>2) ^ n)"
    by (simp add: field_simps)
qed

lemma erf_term_minus: "erf_term (- x) n = - erf_term x n"
  by (simp add: erf_term_def)

lemma std_erf_minus: "std_erf (- x) = - std_erf x"
  by (simp add: std_erf_def erf_term_minus suminf_minus [OF summable_erf_term])

lemma std_erf_0: "std_erf 0 = 0"
  by (simp add: std_erf_def erf_term_def)


lemma d1_valid:
  assumes "valid p" and "0 < strike option"
  shows "d1 option p = Fin (bs_d1 (strike option) p)"
proof -
  from assms have pos: "0 < S p / strike option" "sigma p * sqrt (T p) \<noteq> 0" "0 \<le> T p"
    "strike option \<noteq> 0"
    by (simp_all add: valid_def)
  show ?thesis
    using pos by (simp add: d1_def bs_d1_def power2_eq_square)
qed

lemma d2_valid:
  assumes "valid p" and "0 < strike option"
  shows "d2 option p = Fin (bs_d2 (strike option) p)"
proof -
  from assms have "0 \<le> T p" by (simp add: valid_def)
  then show ?thesis
    by (simp add: d2_def bs_d2_def d1_valid [OF assms])
qed

lemma normal_cdf_Fin [simp]: "normal_cdf erf (Fin x) = Fin (Phi erf x)"
  by (simp add: normal_cdf_def Phi_def)

lemma bsprice_call:
  assumes "0 < K" and "valid p"
  shows "bsprice erf (EuropeanCall K) p =
           Fin (S p * Phi erf (bs_d1 K p) - K * exp (- r p * T p) * Phi erf (bs_d2 K p))"
proof -
  have "d1 (EuropeanCall K) p = Fin (bs_d1 K p)" "d2 (EuropeanCall K) p = Fin (bs_d2 K p)"
    using d1_valid [of p "EuropeanCall K"] d2_valid [of p "EuropeanCall K"] assms by simp_all
  then show ?thesis
    by (simp add: bsprice_def)
qed

lemma bsprice_put:
  assumes "0 < K" and "valid p"
  shows "bsprice erf (EuropeanPut K) p =
           Fin (K * exp (- r p * T p) * Phi erf (- bs_d2 K p) - S p * Phi erf (- bs_d1 K p))"
proof -
  have "d1 (EuropeanPut K) p = Fin (bs_d1 K p)" "d2 (EuropeanPut K) p = Fin (bs_d2 K p)"
    using d1_valid [of p "EuropeanPut K"] d2_valid [of p "EuropeanPut K"] assms by simp_all
  then show ?thesis
    by (simp add: bsprice_def)
qed

lemma delta_call:
  assumes "0 < K" and "valid p"
  shows "delta erf (EuropeanCall K) p = Fin (Phi erf (bs_d1 K p))"
  using d1_valid [of p "EuropeanCall K"] assms by (simp add: delta_def)

lemma delta_put:
  assumes "0 < K" and "valid p"
  shows "delta erf (EuropeanPut K) p = Fin (Phi erf (bs_d1 K p) - 1)"
  using d1_valid [of p "EuropeanPut K"] assms by (simp add: delta_def)

text \<open>
  An odd \<open>erf\<close> makes \<open>N(x) + N(-x) = 1\<close>, and on the reals the call price minus the put
  price is then \<open>S - K exp(-r T)\<close>. This is a fact of the exact arithmetic only: it says
  nothing about the rounding errors of the two prices.
\<close>

lemma Phi_reflect:
  assumes "\<forall>x. erf (- x) = - erf x"
  shows "Phi erf x + Phi erf (- x) = 1"
proof -
  have "erf (- x / sqrt 2) = - erf (x / sqrt 2)"
    using assms by (metis minus_divide_left)
  then show ?thesis
    by (simp add: Phi_def field_simps)
qed

lemma put_call_parity_exact:
  assumes "0 < K" and "valid p" and "\<forall>x. erf (- x) = - erf x"
  shows "bsprice erf (EuropeanCall K) p - bsprice erf (EuropeanPut K) p
           = Fin (S p - K * exp (- r p * T p))"
proof -
  have a: "Phi erf (- bs_d1 K p) = 1 - Phi erf (bs_d1 K p)"
    using Phi_reflect [OF assms(3), of "bs_d1 K p"] by simp
  have b: "Phi erf (- bs_d2 K p) = 1 - Phi erf (bs_d2 K p)"
    using Phi_reflect [OF assms(3), of "bs_d2 K p"] by simp
  show ?thesis
    by (simp add: bsprice_call [OF assms(1,2)] bsprice_put [OF assms(1,2)] a b algebra_simps)
qed

text \<open>
  \<^verbatim>\<open>delta\<close> returns \<^verbatim>\<open>normal_cdf(d1)\<close> for a call and \<^verbatim>\<open>normal_cdf(d1) - 1.0\<close> for a put,
  and \<^verbatim>\<open>d1\<close> does not depend on the kind of the option.
\<close>

lemma delta_returns:
  "delta erf (EuropeanCall K) p = normal_cdf erf (d1 (EuropeanCall K) p)"
  "delta erf (EuropeanPut K) p = normal_cdf erf (d1 (EuropeanPut K) p) - Fin 1"
  "d1 (EuropeanPut K) p = d1 (EuropeanCall K) p"
  by (simp_all add: delta_def d1_def)


declare mc_loop.simps [simp del] terminal_loop.simps [simp del] inner_loop.simps [simp del]
  outer_loop.simps [simp del] dpow.simps [simp del]
lemma dpow_0 [simp]: "dpow x 0 = Fin 1"
  by (simp add: dpow.simps)

lemma terminal_loop_done: "N < i \<Longrightarrow> terminal_loop option p u d N i values = Inr values"
  by (subst terminal_loop.simps) simp

lemma outer_loop_done: "i < 0 \<Longrightarrow> outer_loop disc prob i values = Inr values"
  by (subst outer_loop.simps) simp

lemma times_Fin_1 [simp]: "x * Fin 1 = x"
  by (cases x) simp_all

lemma int_plus_in_range:
  assumes "INT_MIN \<le> a + b" and "a + b \<le> INT_MAX"
  shows "int_plus a b = a + b"
  using assms by (simp add: int_plus_def INT_MIN_def INT_MAX_def)

lemma int_plus_INT_MAX: "int_plus INT_MAX 1 = INT_MIN"
  by (simp add: int_plus_def INT_MIN_def INT_MAX_def)

lemma price_zero_steps: "price option p 0 = Inr (payoff option (Fin (S p)))"
proof -
  have "terminal_loop option p u d 0 0 [Fin 0] = Inr [payoff option (Fin (S p))]" for u d
    by (subst terminal_loop.simps) (simp add: vector_set_def terminal_loop_done)
  moreover have "int_plus 0 1 = 1"
    by (simp add: int_plus_def)
  ultimately show ?thesis
    by (simp add: price_def Let_def outer_loop_done vector_get_def)
qed

lemma price_minus_one: "price option p (- 1) = Inl OutOfBounds"
proof -
  have "int_plus (- 1) 1 = 0"
    by (simp add: int_plus_def)
  then show ?thesis
    by (simp add: price_def Let_def terminal_loop_done outer_loop_done vector_get_def)
qed

lemma price_length_error:
  assumes "INT_MIN \<le> N" and "N < - 1"
  shows "price option p N = Inl LengthError"
proof -
  from assms have "int_plus N 1 = N + 1"
    by (intro int_plus_in_range) (simp_all add: INT_MIN_def INT_MAX_def)
  with assms show ?thesis
    by (simp add: price_def Let_def)
qed

lemma price_overflow: "price option p INT_MAX = Inl LengthError"
  by (simp add: price_def Let_def int_plus_INT_MAX) (simp add: INT_MIN_def)

lemma mc_loop_done: "n \<le> i \<Longrightarrow> mc_loop draw option p n i rng acc = (acc, rng)"
  by (subst mc_loop.simps) simp

lemma mc_price_zero_paths: "mc_price draw option p rng 0 = (NaN, rng)"
  by (simp add: mc_price_def mc_loop_done)

lemma mc_price_negative_paths:
  assumes "n < 0" and "0 \<le> r p" and "0 \<le> T p"
  shows "mc_price draw option p rng n = (Fin 0, rng)"
  using assms(1) by (simp add: mc_price_def mc_loop_done)

lemma normal_cdf_PInf [simp]: "normal_cdf erf PInf = Fin 1"
  by (simp add: normal_cdf_def)

lemma normal_cdf_NInf [simp]: "normal_cdf erf NInf = Fin 0"
  by (simp add: normal_cdf_def)

lemma normal_cdf_NaN [simp]: "normal_cdf erf NaN = NaN"
  by (simp add: normal_cdf_def)

section \<open>The Monte Carlo loop\<close>

lemma payoff_Fin [simp]: "payoff option (Fin x) = Fin (payoff_value option x)"
  by (cases option) (auto simp: std_max_def max_def)

lemma payoff_value_nonneg: "0 \<le> payoff_value option x"
  by (cases option) simp_all

lemma foldl_plus_Fin: "foldl (+) (Fin a) (map Fin xs) = Fin (a + sum_list xs)"
  by (induction xs arbitrary: a) (simp_all add: add.assoc)

lemma terminal_price_double_Fin:
  "0 \<le> T p \<Longrightarrow> terminal_price_double p z = Fin (terminal_price p z)"
  by (simp add: terminal_price_double_def terminal_price_def)

lemma length_draws: "length (fst (draws draw rng k)) = k"
proof (induction k arbitrary: rng)
  case 0
  show ?case by simp
next
  case (Suc k)
  obtain z rng' where s: "sample draw rng = (z, rng')"
    by (cases "sample draw rng")
  obtain zs rng'' where d: "draws draw rng' k = (zs, rng'')"
    by (cases "draws draw rng' k")
  from Suc [of rng'] d show ?case
    by (simp add: s)
qed

lemma mc_loop_draws:
  "mc_loop draw option p n i rng acc =
     (foldl (+) acc (map (\<lambda>z. payoff option (terminal_price_double p z))
                       (fst (draws draw rng (nat (n - i))))),
      snd (draws draw rng (nat (n - i))))"
proof (induction draw option p n i rng acc rule: mc_loop.induct)
  case (1 draw option p n i rng acc)
  show ?case
  proof (cases "i < n")
    case False
    then show ?thesis
      by (subst mc_loop.simps) simp
  next
    case True
    obtain z rng' where s: "sample draw rng = (z, rng')"
      by (cases "sample draw rng")
    from True have k: "nat (n - i) = Suc (nat (n - (i + 1)))"
      by simp
    let ?ST = "Fin (S p) * dexp ((Fin (r p) - Fin 0.5 * Fin (sigma p) * Fin (sigma p)) * Fin (T p)
                + Fin (sigma p) * dsqrt (Fin (T p)) * Fin z)"
    have st: "?ST = terminal_price_double p z"
      by (simp add: terminal_price_double_def power2_eq_square)
    have "mc_loop draw option p n i rng acc
            = mc_loop draw option p n (i + 1) rng' (acc + payoff option ?ST)"
      by (subst mc_loop.simps) (simp add: True s)
    also have "\<dots> = (foldl (+) (acc + payoff option ?ST)
                        (map (\<lambda>z. payoff option (terminal_price_double p z))
                           (fst (draws draw rng' (nat (n - (i + 1)))))),
                      snd (draws draw rng' (nat (n - (i + 1)))))"
      by (rule "1.IH" [OF True s [symmetric] refl])
    also have "\<dots> = (foldl (+) acc
                        (map (\<lambda>z. payoff option (terminal_price_double p z))
                           (fst (draws draw rng (nat (n - i))))),
                      snd (draws draw rng (nat (n - i))))"
      by (simp only: st) (simp add: k s split: prod.splits)
    finally show ?thesis .
  qed
qed

lemma mc_price_draws:
  "mc_price draw option p rng n =
     (dexp (- Fin (r p) * Fin (T p))
        * (foldl (+) (Fin 0) (map (\<lambda>z. payoff option (terminal_price_double p z))
                               (fst (draws draw rng (nat n))))
           / Fin (of_int n)),
      snd (draws draw rng (nat n)))"
  by (simp add: mc_price_def mc_loop_draws)

lemma mc_price_real:
  assumes "1 \<le> n" and "0 \<le> T p"
  shows "fst (mc_price draw option p rng n) =
           Fin (exp (- r p * T p)
                * (sum_list (map (\<lambda>z. payoff_value option (terminal_price p z))
                               (fst (draws draw rng (nat n))))
                   / of_int n))"
proof -
  have "(\<lambda>z. payoff option (terminal_price_double p z))
          = (\<lambda>z. Fin (payoff_value option (terminal_price p z)))"
    by (simp add: terminal_price_double_Fin [OF assms(2)])
  then have "foldl (+) (Fin 0) (map (\<lambda>z. payoff option (terminal_price_double p z)) zs)
          = Fin (sum_list (map (\<lambda>z. payoff_value option (terminal_price p z)) zs))" for zs
    using foldl_plus_Fin [of 0 "map (\<lambda>z. payoff_value option (terminal_price p z)) zs"]
    by (simp add: comp_def)
  moreover from assms(1) have "real_of_int n \<noteq> 0"
    by simp
  ultimately show ?thesis
    by (simp add: mc_price_draws)
qed

text \<open>
  What is not negative stays so through \<^verbatim>\<open>std::max(x, 0.0)\<close>, the sum, the product, the
  division by a positive number and \<^verbatim>\<open>exp\<close>; and a NaN in the total stays there.
\<close>

lemma not_negative_iff: "not_negative x = (x = NaN \<or> x = PInf \<or> (\<exists>v. x = Fin v \<and> 0 \<le> v))"
  by (cases x) simp_all

lemma not_negative_std_max: "not_negative (std_max x (Fin 0))"
  by (cases x) (simp_all add: std_max_def)

lemma not_negative_payoff: "not_negative (payoff option ST)"
  by (cases option) (simp_all add: not_negative_std_max del: payoff_Fin)

lemma not_negative_plus: "not_negative x \<Longrightarrow> not_negative y \<Longrightarrow> not_negative (x + y)"
  by (cases x; cases y) simp_all

lemma not_negative_times: "not_negative x \<Longrightarrow> not_negative y \<Longrightarrow> not_negative (x * y)"
  by (cases x; cases y) simp_all

lemma not_negative_divide: "not_negative x \<Longrightarrow> 0 < c \<Longrightarrow> not_negative (x / Fin c)"
  by (cases x) simp_all

lemma not_negative_dexp: "not_negative (dexp x)"
  by (cases x) simp_all

lemma not_negative_foldl:
  "not_negative a \<Longrightarrow> not_negative (foldl (+) a (map (\<lambda>z. payoff option (f z)) zs))"
  by (induction zs arbitrary: a) (simp_all add: not_negative_plus not_negative_payoff del: payoff_Fin)

lemma foldl_plus_NaN: "foldl (+) NaN xs = (NaN :: double)"
  by (induction xs) simp_all

lemma payoff_NaN: "payoff option NaN = NaN"
  by (cases option) (simp_all add: std_max_def)

lemma terminal_price_double_NaN: "T p < 0 \<Longrightarrow> terminal_price_double p z = NaN"
  by (simp add: terminal_price_double_def)

lemma foldl_payoff_NaN:
  assumes "T p < 0" and "zs \<noteq> []"
  shows "foldl (+) a (map (\<lambda>z. payoff option (terminal_price_double p z)) zs) = NaN"
proof -
  from assms(2) obtain z zs' where zs: "zs = z # zs'"
    by (cases zs) auto
  show ?thesis
    by (simp add: zs terminal_price_double_NaN [OF assms(1)] payoff_NaN foldl_plus_NaN)
qed

section \<open>The loops of the binomial tree\<close>

lemma terminal_loop_fills:
  assumes "0 \<le> i" and "i \<le> N + 1" and "length vs = nat (N + 1)"
  shows "terminal_loop option p u d N i vs =
           Inr (take (nat i) vs @ map (terminal_double option p u d N) [nat i..<nat (N + 1)])"
  using assms
proof (induction option p u d N i vs rule: terminal_loop.induct)
  case (1 option p u d N i vs)
  show ?case
  proof (cases "i \<le> N")
    case False
    with "1.prems" have "i = N + 1" by simp
    with "1.prems" show ?thesis
      by (subst terminal_loop.simps) simp
  next
    case True
    let ?x = "payoff option (Fin (S p) * dpow u i * dpow d (N - i))"
    from True "1.prems" have inb: "nat i < length vs" by simp
    from True "1.prems" have set: "vector_set vs i ?x = Inr (vs[nat i := ?x])"
      by (simp add: vector_set_def)
    have x: "?x = terminal_double option p u d N (nat i)"
      using "1.prems" by (simp add: terminal_double_def)
    from True "1.prems" have suc: "nat (i + 1) = Suc (nat i)" and lt: "nat i < nat (N + 1)"
      by simp_all
    have tk: "take (nat (i + 1)) (vs[nat i := y]) = take (nat i) vs @ [y]" for y
      using inb by (simp add: suc take_Suc_conv_app_nth)
    have up: "[nat i..<nat (N + 1)] = nat i # [nat (i + 1)..<nat (N + 1)]"
      using lt by (simp add: suc upt_conv_Cons)
    have "terminal_loop option p u d N i vs = terminal_loop option p u d N (i + 1) (vs[nat i := ?x])"
      by (subst terminal_loop.simps) (simp add: True set)
    also have "\<dots> = Inr (take (nat (i + 1)) (vs[nat i := ?x])
                        @ map (terminal_double option p u d N) [nat (i + 1)..<nat (N + 1)])"
      using True "1.prems" by (intro "1.IH" [OF True refl set]) simp_all
    finally show ?thesis
      by (simp only: tk up x list.map append_assoc append.simps)
  qed
qed

lemma inner_loop_updates:
  assumes "0 \<le> j" and "j \<le> i + 1" and "nat (i + 1) < length vs"
  shows "inner_loop disc prob i j vs =
           Inr (take (nat j) vs
                @ map (\<lambda>k. node_double disc prob (vs ! (k + 1)) (vs ! k)) [nat j..<nat (i + 1)]
                @ drop (nat (i + 1)) vs)"
  using assms
proof (induction disc prob i j vs rule: inner_loop.induct)
  case (1 disc prob i j vs)
  show ?case
  proof (cases "j \<le> i")
    case False
    with "1.prems" have "j = i + 1" by simp
    then show ?thesis
      by (subst inner_loop.simps) simp
  next
    case True
    let ?x = "disc * (prob * vs ! nat (j + 1) + (Fin 1 - prob) * vs ! nat j)"
    let ?vs = "vs[nat j := ?x]"
    from True "1.prems" have suc: "nat (j + 1) = Suc (nat j)" and lt: "nat j < nat (i + 1)"
      and inb: "nat j < length vs" "Suc (nat j) < length vs"
      by simp_all
    have up: "vector_get vs (j + 1) = Inr (vs ! nat (j + 1))"
      using True "1.prems" by (simp add: vector_get_def)
    have down: "vector_get vs j = Inr (vs ! nat j)"
      using True "1.prems" by (simp add: vector_get_def)
    have set: "vector_set vs j ?x = Inr ?vs"
      using True "1.prems" by (simp add: vector_set_def)
    have x: "?x = node_double disc prob (vs ! (nat j + 1)) (vs ! nat j)"
      by (simp add: node_double_def suc)
    have tk: "take (nat (j + 1)) (vs[nat j := y]) = take (nat j) vs @ [y]" for y
      using inb by (simp add: suc take_Suc_conv_app_nth)
    have dr: "drop (nat (i + 1)) (vs[nat j := y]) = drop (nat (i + 1)) vs" for y
      using lt by simp
    have mp: "map (\<lambda>k. node_double disc prob (vs[nat j := y] ! (k + 1)) (vs[nat j := y] ! k))
                [nat (j + 1)..<nat (i + 1)]
            = map (\<lambda>k. node_double disc prob (vs ! (k + 1)) (vs ! k)) [nat (j + 1)..<nat (i + 1)]" for y
      by (rule map_cong) (simp_all add: suc)
    have ut: "[nat j..<nat (i + 1)] = nat j # [nat (j + 1)..<nat (i + 1)]"
      using lt by (simp add: suc upt_conv_Cons)
    have "inner_loop disc prob i j vs = inner_loop disc prob i (j + 1) ?vs"
      by (subst inner_loop.simps) (simp add: True up down set)
    also have "\<dots> = Inr (take (nat (j + 1)) ?vs
                @ map (\<lambda>k. node_double disc prob (?vs ! (k + 1)) (?vs ! k)) [nat (j + 1)..<nat (i + 1)]
                @ drop (nat (i + 1)) ?vs)"
      using True "1.prems" by (intro "1.IH" [OF True up down set]) simp_all
    also have "\<dots> = Inr (take (nat j) vs
                @ map (\<lambda>k. node_double disc prob (vs ! (k + 1)) (vs ! k)) [nat j..<nat (i + 1)]
                @ drop (nat (i + 1)) vs)"
      unfolding tk dr mp ut x by simp
    finally show ?thesis .
  qed
qed

lemma inner_loop_step:
  assumes "0 \<le> i" and "nat (i + 1) < length vs"
  shows "inner_loop disc prob i 0 vs =
           Inr (step_double disc prob (take (nat (i + 2)) vs) @ drop (nat (i + 1)) vs)"
proof -
  from assms have len: "length (take (nat (i + 2)) vs) - 1 = nat (i + 1)"
    by simp
  have "map (\<lambda>k. node_double disc prob (vs ! (k + 1)) (vs ! k)) [0..<nat (i + 1)]
          = step_double disc prob (take (nat (i + 2)) vs)"
    unfolding step_double_def len using assms
    by (intro map_cong) simp_all
  with inner_loop_updates [of 0 i vs disc prob] assms show ?thesis
    by simp
qed

lemma length_step_double [simp]: "length (step_double disc prob vs) = length vs - 1"
  by (simp add: step_double_def)

lemma outer_loop_steps:
  assumes "- 1 \<le> i" and "nat (i + 1) < length vs"
  shows "\<exists>vs'. outer_loop disc prob i vs = Inr vs' \<and> length vs' = length vs
               \<and> take 1 vs' = (step_double disc prob ^^ nat (i + 1)) (take (nat (i + 2)) vs)"
  using assms
proof (induction disc prob i vs rule: outer_loop.induct)
  case (1 disc prob i vs)
  show ?case
  proof (cases "0 \<le> i")
    case False
    with "1.prems" have "i = - 1" by simp
    then show ?thesis
      by (subst outer_loop.simps) simp
  next
    case True
    let ?vs = "step_double disc prob (take (nat (i + 2)) vs) @ drop (nat (i + 1)) vs"
    have inner: "inner_loop disc prob i 0 vs = Inr ?vs"
      by (rule inner_loop_step [OF True "1.prems"(2)])
    from True "1.prems" have len: "length ?vs = length vs"
      by simp
    from True "1.prems" have l1: "length (step_double disc prob (take (nat (i + 2)) vs)) = nat (i + 1)"
      by simp
    from True have n: "nat (i - 1 + 2) = nat (i + 1)" "nat (i + 1) = Suc (nat (i - 1 + 1))"
      by simp_all
    have "\<exists>vs'. outer_loop disc prob (i - 1) ?vs = Inr vs' \<and> length vs' = length ?vs
               \<and> take 1 vs' = (step_double disc prob ^^ nat (i - 1 + 1)) (take (nat (i - 1 + 2)) ?vs)"
      using True "1.prems" by (intro "1.IH" [OF True inner]) (simp_all add: len)
    then obtain vs' where o: "outer_loop disc prob (i - 1) ?vs = Inr vs'"
      and l: "length vs' = length vs"
      and t: "take 1 vs' = (step_double disc prob ^^ nat (i - 1 + 1)) (take (nat (i - 1 + 2)) ?vs)"
      using len by auto
    have "take (nat (i - 1 + 2)) ?vs = step_double disc prob (take (nat (i + 2)) vs)"
      using l1 n(1) by (metis append_eq_conv_conj)
    with t have "take 1 vs' = (step_double disc prob ^^ nat (i - 1 + 1))
                                (step_double disc prob (take (nat (i + 2)) vs))"
      by (simp only:)
    also have "\<dots> = (step_double disc prob ^^ nat (i + 1)) (take (nat (i + 2)) vs)"
      by (simp only: n(2) funpow_Suc_right o_apply)
    finally have "take 1 vs' = (step_double disc prob ^^ nat (i + 1)) (take (nat (i + 2)) vs)" .
    moreover have "outer_loop disc prob i vs = Inr vs'"
      by (subst outer_loop.simps) (simp add: True inner o)
    ultimately show ?thesis
      using l by simp
  qed
qed

lemma price_steps:
  assumes "0 \<le> N" and "N < INT_MAX"
  shows "price option p N =
           (let dt = Fin (T p) / Fin (of_int N);
                u = dexp (Fin (sigma p) * dsqrt dt);
                d = Fin 1 / u;
                disc = dexp (- Fin (r p) * dt);
                prob = (dexp (Fin (r p) * dt) - d) / (u - d)
            in Inr (hd ((step_double disc prob ^^ nat N)
                          (map (terminal_double option p u d N) [0..<nat N + 1]))))"
proof -
  define dt where "dt = Fin (T p) / Fin (of_int N)"
  define u where "u = dexp (Fin (sigma p) * dsqrt dt)"
  define d where "d = Fin 1 / u"
  define disc where "disc = dexp (- Fin (r p) * dt)"
  define prob where "prob = (dexp (Fin (r p) * dt) - d) / (u - d)"
  let ?vs = "map (terminal_double option p u d N) [0..<nat (N + 1)]"
  from assms have size: "int_plus N 1 = N + 1"
    by (intro int_plus_in_range) (simp_all add: INT_MIN_def INT_MAX_def)
  from assms have m: "nat (N + 1) = nat N + 1"
    by simp
  have t: "terminal_loop option p u d N 0 (replicate (nat (N + 1)) (Fin 0)) = Inr ?vs"
    using terminal_loop_fills [of 0 N "replicate (nat (N + 1)) (Fin 0)" option p u d] assms
    by simp
  from assms have len: "nat (N - 1 + 1) < length ?vs" "- 1 \<le> N - 1"
    by simp_all
  from outer_loop_steps [OF len(2) len(1), of disc prob]
  obtain vs' where o: "outer_loop disc prob (N - 1) ?vs = Inr vs'"
    and l: "length vs' = length ?vs"
    and h: "take 1 vs' = (step_double disc prob ^^ nat (N - 1 + 1)) (take (nat (N - 1 + 2)) ?vs)"
    by blast
  from assms have "take (nat (N - 1 + 2)) ?vs = ?vs" "nat (N - 1 + 1) = nat N"
    by simp_all
  with h have h': "take 1 vs' = (step_double disc prob ^^ nat N) ?vs"
    by (simp only:)
  from l assms have ne: "vs' \<noteq> []"
    by auto
  then have "vs' ! 0 = hd (take 1 vs')"
    by (cases vs') simp_all
  with h' have "vs' ! 0 = hd ((step_double disc prob ^^ nat N) ?vs)"
    by (simp only:)
  moreover from ne have "vector_get vs' 0 = Inr (vs' ! 0)"
    by (simp add: vector_get_def)
  ultimately have "(if N + 1 < 0 then Inl LengthError
          else (case terminal_loop option p u d N 0 (replicate (nat (N + 1)) (Fin 0)) of
                  Inl e \<Rightarrow> Inl e
                | Inr values \<Rightarrow>
                    (case outer_loop disc prob (N - 1) values of
                       Inl e \<Rightarrow> Inl e
                     | Inr values' \<Rightarrow> vector_get values' 0)))
         = Inr (hd ((step_double disc prob ^^ nat N) ?vs))"
    using assms by (simp add: t o)
  then show ?thesis
    unfolding price_def Let_def size m dt_def u_def d_def disc_def prob_def .
qed

lemma step_double_3:
  "step_double disc prob [a, b, c] = [node_double disc prob b a, node_double disc prob c b]"
  by (simp add: step_double_def upt_rec)

lemma step_double_2: "step_double disc prob [a, b] = [node_double disc prob b a]"
  by (simp add: step_double_def)

section \<open>Black-Scholes price\<close>



section \<open>Facts of the examples\<close>

lemma main_p_fields [simp]:
  "S main_p = 100" "sigma main_p = 1 / 5" "r main_p = 1 / 20" "T main_p = 1"
  by (simp_all add: main_p_def)

lemma RNG_new_example:
  "RNG_new example_mt19937 0 0 = \<lparr>gen = 0, rv = 0\<rparr>"
  "RNG_new example_mt19937 0 1 = \<lparr>gen = 1, rv = 0\<rparr>"
  "RNG_new example_mt19937 0 7 = \<lparr>gen = 7, rv = 0\<rparr>"
  by (simp_all add: RNG_new_def example_mt19937_def)

lemma sample_example:
  "sample example_draw \<lparr>gen = e, rv = d\<rparr> = (real e, \<lparr>gen = Suc e, rv = Suc d\<rparr>)"
  by (simp add: sample_def example_draw_def)

lemma terminal_price_main_p: "terminal_price main_p z = 100 * exp (3 / 100 + z / 5)"
  by (simp add: terminal_price_def power2_eq_square)

lemma call_payoff_main_p:
  "0 \<le> x \<Longrightarrow> payoff_value (EuropeanCall 100) (100 * exp x) = 100 * exp x - 100"
  by (simp add: max_def)

section \<open>Monte Carlo: the discounted sample mean\<close>

text \<open>
  C4. For every payoff, market parameters, generator state and \<open>n \<ge> 1\<close>, \<open>mc_price\<close>
  makes exactly \<open>n\<close> trials: it takes the \<open>n\<close> draws \<open>draws draw rng n\<close> from the
  generator, one after the other, and leaves the generator where they leave it; for each
  draw \<open>z\<close> it computes the terminal price \<open>S exp((r - sigma\<^sup>2/2) T + sigma sqrt(T) z)\<close>
  and adds its payoff to the total, starting from 0; and it returns \<open>exp(-r T)\<close> times the
  total divided by \<open>n\<close>. The first part says so in the arithmetic of \<^verbatim>\<open>double\<close>, for all
  parameters; the last part says that for \<open>T \<ge> 0\<close> the result is the finite number given
  by the same formula on the reals.
\<close>

theorem mc_price_discounted_mean:
  assumes "1 \<le> n"
  shows "mc_price draw option p rng n =
           (dexp (- Fin (r p) * Fin (T p))
              * (foldl (+) (Fin 0) (map (\<lambda>z. payoff option (terminal_price_double p z))
                                     (fst (draws draw rng (nat n))))
                 / Fin (of_int n)),
            snd (draws draw rng (nat n)))
       \<and> length (fst (draws draw rng (nat n))) = nat n
       \<and> (0 \<le> T p \<longrightarrow>
            fst (mc_price draw option p rng n) =
              Fin (exp (- r p * T p)
                   * (sum_list (map (\<lambda>z. payoff_value option (terminal_price p z))
                                  (fst (draws draw rng (nat n))))
                      / of_int n)))"
  using assms mc_price_draws [of draw option p rng n] length_draws [of draw rng "nat n"]
    mc_price_real [of n p draw option rng]
  by blast

theorem mc_price_discounted_mean_witness:
  "(1 :: int) \<le> 2 \<and> 0 \<le> T main_p
   \<and> draws example_draw (RNG_new example_mt19937 0 0) (nat 2) = ([0, 1], \<lparr>gen = 2, rv = 2\<rparr>)
   \<and> mc_price example_draw (EuropeanCall 100) main_p (RNG_new example_mt19937 0 0) 2
       = (Fin (exp (- (1 / 20)) * ((100 * exp (3 / 100) - 100 + (100 * exp (23 / 100) - 100)) / 2)),
          \<lparr>gen = 2, rv = 2\<rparr>)"
proof -
  have h1: "(1 :: int) \<le> 2" and h2: "0 \<le> T main_p"
    by simp_all
  have d: "draws example_draw (RNG_new example_mt19937 0 0) (nat 2) = ([0, 1], \<lparr>gen = 2, rv = 2\<rparr>)"
    by (simp add: RNG_new_example sample_example numeral_2_eq_2)
  have p0: "payoff_value (EuropeanCall 100) (terminal_price main_p 0) = 100 * exp (3 / 100) - 100"
    using call_payoff_main_p [of "3 / 100"] by (simp add: terminal_price_main_p)
  have p1: "payoff_value (EuropeanCall 100) (terminal_price main_p 1) = 100 * exp (23 / 100) - 100"
    using call_payoff_main_p [of "23 / 100"] by (simp add: terminal_price_main_p)
  note th = mc_price_discounted_mean [OF h1, of example_draw "EuropeanCall 100" main_p
      "RNG_new example_mt19937 0 0"]
  from th have "snd (mc_price example_draw (EuropeanCall 100) main_p (RNG_new example_mt19937 0 0) 2)
                  = snd (draws example_draw (RNG_new example_mt19937 0 0) (nat 2))"
    by (metis snd_conv)
  then have a: "snd (mc_price example_draw (EuropeanCall 100) main_p (RNG_new example_mt19937 0 0) 2)
                  = \<lparr>gen = 2, rv = 2\<rparr>"
    by (simp only: d snd_conv)
  from th h2 have "fst (mc_price example_draw (EuropeanCall 100) main_p (RNG_new example_mt19937 0 0) 2)
          = Fin (exp (- r main_p * T main_p)
                 * (sum_list (map (\<lambda>z. payoff_value (EuropeanCall 100) (terminal_price main_p z))
                                (fst (draws example_draw (RNG_new example_mt19937 0 0) (nat 2))))
                    / of_int 2))"
    by blast
  then have b: "fst (mc_price example_draw (EuropeanCall 100) main_p (RNG_new example_mt19937 0 0) 2)
          = Fin (exp (- (1 / 20)) * ((100 * exp (3 / 100) - 100 + (100 * exp (23 / 100) - 100)) / 2))"
    by (simp only: d fst_conv list.map sum_list.Cons sum_list.Nil p0 p1) simp
  from a b have "mc_price example_draw (EuropeanCall 100) main_p (RNG_new example_mt19937 0 0) 2
       = (Fin (exp (- (1 / 20)) * ((100 * exp (3 / 100) - 100 + (100 * exp (23 / 100) - 100)) / 2)),
          \<lparr>gen = 2, rv = 2\<rparr>)"
    by (simp only: prod_eq_iff fst_conv snd_conv simp_thms)
  with h1 h2 d show ?thesis
    by blast
qed

section \<open>Monte Carlo: the price is not negative\<close>

text \<open>
  C10, as amended. For every call or put, all market parameters, every generator state and
  every \<open>n \<ge> 1\<close>, the Monte Carlo price is never a negative number: it is a finite number
  at least 0, the positive infinity, or NaN. Every payoff \<^verbatim>\<open>std::max(x, 0.0)\<close> is one of
  these, and the sum, the division by \<open>n\<close> and the product with \<^verbatim>\<open>exp(-r T)\<close> keep it so.
  When \<open>T < 0\<close> the price is NaN.
\<close>

theorem mc_price_not_negative:
  assumes "1 \<le> n"
  shows "(fst (mc_price draw option p rng n) = NaN
          \<or> fst (mc_price draw option p rng n) = PInf
          \<or> (\<exists>v. fst (mc_price draw option p rng n) = Fin v \<and> 0 \<le> v))
       \<and> (T p < 0 \<longrightarrow> fst (mc_price draw option p rng n) = NaN)"
proof -
  let ?zs = "fst (draws draw rng (nat n))"
  let ?total = "foldl (+) (Fin 0) (map (\<lambda>z. payoff option (terminal_price_double p z)) ?zs)"
  have price: "fst (mc_price draw option p rng n)
                 = dexp (- Fin (r p) * Fin (T p)) * (?total / Fin (of_int n))"
    by (simp add: mc_price_draws)
  from assms have n: "(0 :: real) < of_int n"
    by simp
  have "not_negative ?total"
    by (rule not_negative_foldl) simp
  then have "not_negative (?total / Fin (of_int n))"
    using n by (rule not_negative_divide)
  then have "not_negative (dexp (- Fin (r p) * Fin (T p)) * (?total / Fin (of_int n)))"
    by (intro not_negative_times not_negative_dexp)
  then have 1: "fst (mc_price draw option p rng n) = NaN
          \<or> fst (mc_price draw option p rng n) = PInf
          \<or> (\<exists>v. fst (mc_price draw option p rng n) = Fin v \<and> 0 \<le> v)"
    unfolding price not_negative_iff .
  have 2: "fst (mc_price draw option p rng n) = NaN" if "T p < 0"
  proof -
    from assms have "length ?zs \<noteq> 0"
      by (simp add: length_draws)
    then have "?zs \<noteq> []"
      by simp
    from foldl_payoff_NaN [OF that this] show ?thesis
      by (simp add: price)
  qed
  from 1 2 show ?thesis
    by blast
qed

theorem mc_price_not_negative_witness:
  "(1 :: int) \<le> 2 \<and> T (main_p\<lparr>T := - 2\<rparr>) < 0
   \<and> (fst (mc_price example_draw (EuropeanPut 100) main_p (RNG_new example_mt19937 0 0) 2) = NaN
      \<or> fst (mc_price example_draw (EuropeanPut 100) main_p (RNG_new example_mt19937 0 0) 2) = PInf
      \<or> (\<exists>v. fst (mc_price example_draw (EuropeanPut 100) main_p (RNG_new example_mt19937 0 0) 2)
               = Fin v \<and> 0 \<le> v))
   \<and> fst (mc_price example_draw (EuropeanPut 100) (main_p\<lparr>T := - 2\<rparr>) (RNG_new example_mt19937 0 0) 2)
       = NaN"
proof -
  have h: "(1 :: int) \<le> 2"
    by simp
  have t: "T (main_p\<lparr>T := - 2\<rparr>) < 0"
    by simp
  from mc_price_not_negative [OF h, of example_draw "EuropeanPut 100" main_p "RNG_new example_mt19937 0 0"]
    mc_price_not_negative [OF h, of example_draw "EuropeanPut 100" "main_p\<lparr>T := - 2\<rparr>"
      "RNG_new example_mt19937 0 0"] h t
  show ?thesis
    by blast
qed

text \<open>
  C10 as stated, for every market parameters, fails when \<open>T\<close> is negative: \<^verbatim>\<open>sqrt(T)\<close>
  is NaN, so is the terminal price, \<^verbatim>\<open>std::max(ST - K, 0.0)\<close> returns its first argument
  when the comparison with NaN is false, and the price is NaN, which is not a number at
  least 0.
\<close>

theorem mc_price_nonnegative_counterexample:
  "fst (mc_price example_draw (EuropeanCall 100) (main_p\<lparr>T := - 1\<rparr>) (RNG_new example_mt19937 0 0) 1)
     = NaN"
proof -
  have "terminal_price_double (main_p\<lparr>T := - 1\<rparr>) 0 = NaN"
    by (simp add: terminal_price_double_def)
  then show ?thesis
    by (simp add: mc_price_draws RNG_new_example sample_example std_max_def)
qed

section \<open>Monte Carlo: the generator and its seed\<close>

text \<open>
  C8, as amended. The Monte Carlo price depends on the generator only through its first
  \<open>n\<close> draws: two calls with the same payoff, parameters and \<open>n\<close>, on generator states
  that give the same \<open>n\<close> draws, return the same price. Two equal states are such states.
\<close>

theorem mc_price_same_draws:
  assumes "fst (draws draw rng1 (nat n)) = fst (draws draw rng2 (nat n))"
  shows "fst (mc_price draw option p rng1 n) = fst (mc_price draw option p rng2 n)"
  using assms by (simp add: mc_price_draws)

theorem mc_price_same_draws_witness:
  "fst (draws example_draw \<lparr>gen = 5, rv = 0\<rparr> (nat 2)) = fst (draws example_draw \<lparr>gen = 5, rv = 9\<rparr> (nat 2))
   \<and> fst (mc_price example_draw (EuropeanCall 100) main_p \<lparr>gen = 5, rv = 0\<rparr> 2)
       = fst (mc_price example_draw (EuropeanCall 100) main_p \<lparr>gen = 5, rv = 9\<rparr> 2)"
proof -
  have d: "fst (draws example_draw \<lparr>gen = 5, rv = 0\<rparr> (nat 2))
             = fst (draws example_draw \<lparr>gen = 5, rv = 9\<rparr> (nat 2))"
    by (simp add: sample_example numeral_2_eq_2)
  with mc_price_same_draws [of example_draw "\<lparr>gen = 5, rv = 0\<rparr>" 2 "\<lparr>gen = 5, rv = 9\<rparr>"
      "EuropeanCall 100" main_p]
  show ?thesis
    by simp
qed

text \<open>
  C8 as stated also says that the caller can seed the generator. \<^verbatim>\<open>RNG\<close> has one
  constructor, without arguments, and the seed is what \<^verbatim>\<open>random_device\<close> returns. Two
  runs in which the caller does the same (it builds a generator and prices the same call
  over one path) and \<^verbatim>\<open>random_device\<close> returns 0 in one and 1 in the other give
  different prices.
\<close>

theorem seed_counterexample:
  "fst (mc_price example_draw (EuropeanCall 100) main_p (RNG_new example_mt19937 0 0) 1)
     \<noteq> fst (mc_price example_draw (EuropeanCall 100) main_p (RNG_new example_mt19937 0 1) 1)"
proof -
  have p0: "payoff_value (EuropeanCall 100) (terminal_price main_p 0) = 100 * exp (3 / 100) - 100"
    using call_payoff_main_p [of "3 / 100"] by (simp add: terminal_price_main_p)
  have p1: "payoff_value (EuropeanCall 100) (terminal_price main_p 1) = 100 * exp (23 / 100) - 100"
    using call_payoff_main_p [of "23 / 100"] by (simp add: terminal_price_main_p)
  have "fst (mc_price example_draw (EuropeanCall 100) main_p (RNG_new example_mt19937 0 0) 1)
          = Fin (exp (- (1 / 20)) * (100 * exp (3 / 100) - 100))"
    using mc_price_real [of 1 main_p example_draw "EuropeanCall 100" "RNG_new example_mt19937 0 0"] p0
    by (simp add: RNG_new_example sample_example del: payoff_value.simps)
  moreover have "fst (mc_price example_draw (EuropeanCall 100) main_p (RNG_new example_mt19937 0 1) 1)
          = Fin (exp (- (1 / 20)) * (100 * exp (23 / 100) - 100))"
    using mc_price_real [of 1 main_p example_draw "EuropeanCall 100" "RNG_new example_mt19937 0 1"] p1
    by (simp add: RNG_new_example sample_example del: payoff_value.simps)
  ultimately show ?thesis
    by simp
qed

section \<open>The binomial tree with no step\<close>

text \<open>
  C7. With \<open>N = 0\<close> the binomial pricer returns the payoff at the spot price \<open>S\<close>, not
  discounted: \<open>price option p 0 = payoff(S)\<close>. The divisions by zero in \<open>dt\<close> and what
  follows from them do not reach the result, since \<^verbatim>\<open>pow(u, 0)\<close> and \<^verbatim>\<open>pow(d, 0)\<close> are 1
  and the backward loop does not run.
\<close>

theorem price_zero_steps_is_payoff:
  "price option p 0 = Inr (payoff option (Fin (S p)))"
  by (rule price_zero_steps)

section \<open>Degenerate inputs\<close>

text \<open>
  At the money (\<open>S = K\<close>) the logarithm in \<^verbatim>\<open>d1\<close> is 0. With \<open>T = 0\<close>, or with
  \<open>sigma = 0\<close> and \<open>r = 0\<close>, the rest of the numerator is 0 as well and so is the
  denominator: \<^verbatim>\<open>d1\<close> is \<^verbatim>\<open>0/0\<close>, and the NaN goes through \<^verbatim>\<open>d2\<close>, \<^verbatim>\<open>normal_cdf\<close>
  and both prices.
\<close>

lemma bsprice_at_the_money_NaN:
  assumes "0 < strike option" and "S p = strike option"
    and "T p = 0 \<or> (sigma p = 0 \<and> r p = 0 \<and> 0 \<le> T p)"
  shows "bsprice erf option p = NaN"
proof -
  from assms have "d1 option p = NaN"
    by (auto simp: d1_def)
  then show ?thesis
    by (simp add: bsprice_def d2_def)
qed

text \<open>
  C2, as amended. No pricer checks its input and none reports an invalid input. The Monte
  Carlo pricer with \<open>n = 0\<close> returns NaN (\<^verbatim>\<open>0.0 / 0\<close>) and, with \<open>n < 0\<close> and \<open>r \<ge> 0\<close>,
  \<open>T \<ge> 0\<close>, a zero; in both cases without a draw. The binomial pricer with \<open>N = 0\<close>
  returns the payoff at \<open>S\<close>; with \<open>N = -1\<close> it reads \<^verbatim>\<open>values[0]\<close> of an empty vector;
  with \<open>N < -1\<close> the constructor of the vector throws \<^verbatim>\<open>std::length_error\<close>, which is
  not a check of the pricer. The Black-Scholes price at the money with \<open>T = 0\<close>, or with
  \<open>sigma = 0\<close>, \<open>r = 0\<close> and \<open>T \<ge> 0\<close>, is NaN.
\<close>

theorem no_input_validation:
  "mc_price draw option p rng 0 = (NaN, rng)
   \<and> (n < 0 \<and> 0 \<le> r p \<and> 0 \<le> T p \<longrightarrow> mc_price draw option p rng n = (Fin 0, rng))
   \<and> price option p 0 = Inr (payoff option (Fin (S p)))
   \<and> price option p (- 1) = Inl OutOfBounds
   \<and> (INT_MIN \<le> N \<and> N < - 1 \<longrightarrow> price option p N = Inl LengthError)
   \<and> (0 < strike option \<and> S p = strike option
        \<and> (T p = 0 \<or> (sigma p = 0 \<and> r p = 0 \<and> 0 \<le> T p)) \<longrightarrow>
          bsprice erf option p = NaN)"
  using mc_price_zero_paths [of draw option p rng]
    mc_price_negative_paths [where n = n and p = p and draw = draw and option = option and rng = rng]
    price_zero_steps [of option p] price_minus_one [of option p] price_length_error [of N option p]
    bsprice_at_the_money_NaN [of option p erf]
  by blast

theorem no_input_validation_witness:
  "mc_price example_draw (EuropeanCall 100) main_p (RNG_new example_mt19937 0 7) 0
     = (NaN, RNG_new example_mt19937 0 7)
   \<and> mc_price example_draw (EuropeanCall 100) main_p (RNG_new example_mt19937 0 7) (- 1)
     = (Fin 0, RNG_new example_mt19937 0 7)
   \<and> price (EuropeanCall 100) main_p 0 = Inr (Fin 0)
   \<and> price (EuropeanCall 100) main_p (- 1) = Inl OutOfBounds
   \<and> price (EuropeanCall 100) main_p (- 2) = Inl LengthError
   \<and> bsprice std_erf (EuropeanCall 100) (main_p\<lparr>T := 0\<rparr>) = NaN
   \<and> bsprice std_erf (EuropeanCall 100) (main_p\<lparr>sigma := 0, r := 0\<rparr>) = NaN"
proof -
  from no_input_validation [of example_draw "EuropeanCall 100" main_p "RNG_new example_mt19937 0 7"
      "- 1" "- 2" std_erf]
  have 1: "mc_price example_draw (EuropeanCall 100) main_p (RNG_new example_mt19937 0 7) 0
     = (NaN, RNG_new example_mt19937 0 7)
   \<and> mc_price example_draw (EuropeanCall 100) main_p (RNG_new example_mt19937 0 7) (- 1)
     = (Fin 0, RNG_new example_mt19937 0 7)
   \<and> price (EuropeanCall 100) main_p 0 = Inr (Fin 0)
   \<and> price (EuropeanCall 100) main_p (- 1) = Inl OutOfBounds
   \<and> price (EuropeanCall 100) main_p (- 2) = Inl LengthError"
    by (simp add: std_max_def INT_MIN_def)
  from no_input_validation [of example_draw "EuropeanCall 100" "main_p\<lparr>T := 0\<rparr>" _ 0 0 std_erf]
  have 2: "bsprice std_erf (EuropeanCall 100) (main_p\<lparr>T := 0\<rparr>) = NaN"
    by simp
  from no_input_validation [of example_draw "EuropeanCall 100" "main_p\<lparr>sigma := 0, r := 0\<rparr>" _ 0 0
      std_erf]
  have 3: "bsprice std_erf (EuropeanCall 100) (main_p\<lparr>sigma := 0, r := 0\<rparr>) = NaN"
    by simp
  from 1 2 3 show ?thesis
    by blast
qed

text \<open>
  C2 as stated fails on each pricer, in the scenario of \<^verbatim>\<open>main\<close>: the Monte Carlo pricer
  with no path returns NaN, the binomial pricer with no step returns \<open>payoff(100) = 0\<close>,
  the Black-Scholes price with \<open>T = 0\<close> is NaN, and with \<open>sigma = 0\<close> it is the number
  \<open>100 - 100 exp(-0.05)\<close>. None of them is a failure that reports an invalid input.
\<close>

theorem input_validation_counterexample:
  "fst (mc_price example_draw (EuropeanCall 100) main_p (RNG_new example_mt19937 0 7) 0) = NaN
   \<and> price (EuropeanCall 100) main_p 0 = Inr (Fin 0)
   \<and> bsprice std_erf (EuropeanCall 100) (main_p\<lparr>T := 0\<rparr>) = NaN
   \<and> bsprice std_erf (EuropeanCall 100) (main_p\<lparr>sigma := 0\<rparr>) = Fin (100 - 100 * exp (- (1 / 20)))"
proof -
  have 1: "bsprice std_erf (EuropeanCall 100) (main_p\<lparr>T := 0\<rparr>) = NaN"
    by (intro bsprice_at_the_money_NaN) simp_all
  have "d1 (EuropeanCall 100) (main_p\<lparr>sigma := 0\<rparr>) = PInf"
    by (simp add: d1_def)
  then have 2: "bsprice std_erf (EuropeanCall 100) (main_p\<lparr>sigma := 0\<rparr>)
                  = Fin (100 - 100 * exp (- (1 / 20)))"
    by (simp add: bsprice_def d2_def minus_double_def)
  show ?thesis
    by (simp add: mc_price_zero_paths price_zero_steps std_max_def 1 2)
qed

section \<open>The binomial tree: backward induction\<close>

text \<open>
  C3, as amended. For every payoff, all market parameters and every \<open>N\<close> with
  \<open>1 \<le> N < INT_MAX\<close>, the binomial pricer evaluates, in the arithmetic of \<^verbatim>\<open>double\<close>,
  \<open>dt = T/N\<close>, \<open>u = exp(sigma sqrt dt)\<close>, \<open>d = 1/u\<close>, \<open>disc = exp(-r dt)\<close> and
  \<open>p = (exp(r dt) - d)/(u - d)\<close>, the terminal layer \<open>V\<^sub>i = payoff(S u\<^sup>i d\<^sup>N\<^sup>-\<^sup>i)\<close> for \<open>i\<close>
  from 0 to \<open>N\<close>, and \<open>N\<close> steps of the backward induction, each of which replaces
  \<open>V\<^sub>j\<close> by \<open>disc (p V\<^sub>j\<^sub>+\<^sub>1 + (1 - p) V\<^sub>j)\<close>; it returns \<open>V\<^sub>0\<close> of the last layer. The loops of
  the code overwrite one vector in place; the theorem says that the result is that of the
  layers computed one from the other. It is a statement about the expression the code
  evaluates, whatever its value.
\<close>

theorem price_backward_induction:
  assumes "1 \<le> N" and "N < INT_MAX"
  shows "price option p N =
           (let dt = Fin (T p) / Fin (of_int N);
                u = dexp (Fin (sigma p) * dsqrt dt);
                d = Fin 1 / u;
                disc = dexp (- Fin (r p) * dt);
                prob = (dexp (Fin (r p) * dt) - d) / (u - d)
            in Inr (hd ((step_double disc prob ^^ nat N)
                          (map (terminal_double option p u d N) [0..<nat N + 1]))))"
  using assms by (intro price_steps) simp_all

text \<open>
  With \<open>N = 2\<close> the middle terminal value \<open>V\<^sub>1\<close> is read twice: once for node 0 and, after
  node 0 has been overwritten, once for node 1.
\<close>

theorem price_backward_induction_witness:
  "(1 :: int) \<le> 2 \<and> 2 < INT_MAX
   \<and> price (EuropeanCall 100) main_p 2 =
       (let dt = Fin 1 / Fin 2;
            u = dexp (Fin (1 / 5) * dsqrt dt);
            d = Fin 1 / u;
            disc = dexp (- Fin (1 / 20) * dt);
            prob = (dexp (Fin (1 / 20) * dt) - d) / (u - d);
            V0 = payoff (EuropeanCall 100) (Fin 100 * dpow u 0 * dpow d 2);
            V1 = payoff (EuropeanCall 100) (Fin 100 * dpow u 1 * dpow d 1);
            V2 = payoff (EuropeanCall 100) (Fin 100 * dpow u 2 * dpow d 0)
        in Inr (node_double disc prob (node_double disc prob V2 V1) (node_double disc prob V1 V0)))"
proof -
  have h: "(1 :: int) \<le> 2" "2 < INT_MAX"
    by (simp_all add: INT_MAX_def)
  have l: "[0..<nat 2 + 1] = [0, 1, 2]"
    by (simp add: upt_rec)
  have n: "nat 2 = Suc (Suc 0)"
    by simp
  have unroll: "hd ((step_double disc prob ^^ nat 2) (map f [0..<nat 2 + 1]))
                  = node_double disc prob (node_double disc prob (f 2) (f 1))
                      (node_double disc prob (f 1) (f 0))" for disc prob f
    unfolding l n by (simp add: step_double_3 step_double_2 numeral_2_eq_2)
  show ?thesis
    unfolding price_backward_induction [OF h] unroll terminal_double_def Let_def
    using h by simp
qed

text \<open>
  C3 as stated, for every \<open>N \<ge> 1\<close>, fails at \<open>N = INT_MAX\<close>: the size \<^verbatim>\<open>N + 1\<close> of the
  vector wraps around to \<^verbatim>\<open>INT_MIN\<close>, the constructor throws \<^verbatim>\<open>std::length_error\<close>, and
  no layer is filled and no value returned.
\<close>

theorem price_backward_induction_counterexample:
  "price (EuropeanCall 100) main_p 2147483647 = Inl LengthError"
  using price_overflow [of "EuropeanCall 100" main_p] by (simp add: INT_MAX_def)

section \<open>The binomial tree: accesses in bounds\<close>

text \<open>
  C9, as amended. For every \<open>N\<close> with \<open>1 \<le> N < INT_MAX\<close> and all parameters, every access
  to the vector of the binomial pricer is in bounds: the vector has \<open>N + 1\<close> elements; the
  terminal loop returns, with \<open>N + 1\<close> elements, from the vector as constructed; the
  backward loops started at \<open>N - 1\<close> return, with \<open>N + 1\<close> elements, from every vector of
  \<open>N + 1\<close> elements; and the pricer returns a value. In the model every access is checked
  and an access out of bounds is the result \<open>Inl OutOfBounds\<close>, so a loop that returns
  \<open>Inr\<close> has made no such access.
\<close>

theorem price_in_bounds:
  assumes "1 \<le> N" and "N < INT_MAX"
  shows "length (replicate (nat (int_plus N 1)) (Fin 0)) = nat N + 1
       \<and> (\<exists>vs. terminal_loop option p u d N 0 (replicate (nat (int_plus N 1)) (Fin 0)) = Inr vs
                \<and> length vs = nat N + 1)
       \<and> (\<forall>vs. length vs = nat N + 1 \<longrightarrow>
             (\<exists>vs'. outer_loop disc prob (N - 1) vs = Inr vs' \<and> length vs' = nat N + 1))
       \<and> (\<exists>v. price option p N = Inr v)"
proof -
  from assms have n: "0 \<le> N" and m: "nat (N + 1) = nat N + 1"
    by simp_all
  from assms have size: "int_plus N 1 = N + 1"
    by (intro int_plus_in_range) (simp_all add: INT_MIN_def INT_MAX_def)
  have 1: "length (replicate (nat (int_plus N 1)) (Fin 0)) = nat N + 1"
    by (simp add: size m)
  have 2: "\<exists>vs. terminal_loop option p u d N 0 (replicate (nat (int_plus N 1)) (Fin 0)) = Inr vs
                \<and> length vs = nat N + 1"
    using terminal_loop_fills [of 0 N "replicate (nat (N + 1)) (Fin 0)" option p u d] n
    by (simp add: size m)
  have 3: "\<exists>vs'. outer_loop disc prob (N - 1) vs = Inr vs' \<and> length vs' = nat N + 1"
    if "length vs = nat N + 1" for vs
  proof -
    from that n have "- 1 \<le> N - 1" "nat (N - 1 + 1) < length vs"
      by simp_all
    from outer_loop_steps [OF this, of disc prob] that show ?thesis
      by auto
  qed
  have 4: "\<exists>v. price option p N = Inr v"
    using price_steps [OF n assms(2), of option p] by (simp add: Let_def)
  from 1 2 3 4 show ?thesis
    by blast
qed

theorem price_in_bounds_witness:
  "(1 :: int) \<le> 3 \<and> 3 < INT_MAX
   \<and> length (replicate (nat (int_plus 3 1)) (Fin 0)) = nat 3 + 1
   \<and> (\<exists>vs. terminal_loop (EuropeanPut 100) main_p PInf (Fin 0) 3 0
               (replicate (nat (int_plus 3 1)) (Fin 0)) = Inr vs \<and> length vs = nat 3 + 1)
   \<and> (\<exists>vs'. outer_loop NaN NaN (3 - 1) [Fin 1, Fin 2, Fin 3, Fin 4] = Inr vs'
               \<and> length vs' = nat 3 + 1)
   \<and> (\<exists>v. price (EuropeanPut 100) main_p 3 = Inr v)"
proof -
  have h: "(1 :: int) \<le> 3" "3 < INT_MAX"
    by (simp_all add: INT_MAX_def)
  have l: "length [Fin 1, Fin 2, Fin 3, Fin 4] = nat 3 + 1"
    by simp
  from price_in_bounds [OF h, of "EuropeanPut 100" main_p PInf "Fin 0" NaN NaN] l h show ?thesis
    by blast
qed

text \<open>
  C9 as stated, for every \<open>N \<ge> 1\<close>, fails at \<open>N = INT_MAX\<close>: \<^verbatim>\<open>N + 1\<close> is then
  \<^verbatim>\<open>INT_MIN\<close>, not the number of elements of a vector, and the pricer ends with
  \<^verbatim>\<open>std::length_error\<close> before any access.
\<close>

theorem price_in_bounds_counterexample:
  "int_plus 2147483647 1 = - 2147483648
   \<and> price (EuropeanPut 100) main_p 2147483647 = Inl LengthError"
  using price_overflow [of "EuropeanPut 100" main_p]
  by (simp add: INT_MAX_def int_plus_def)

end
